theory Spec2Isabelle
  imports Main "HOL-Library.Word"
begin

unbundle bit_operations_syntax

text \<open>
  A shallow embedding of the core of the Epiphany GDB server (\<^verbatim>\<open>GdbServer.cpp\<close>) and of
  the host shared-memory manager (\<^verbatim>\<open>epiphany-shm-manager.c\<close>). The operations keep the
  names of the source functions. C's fixed-width integers are words, so arithmetic wraps
  as it does in the source. Diagnostic output on \<^verbatim>\<open>cerr\<close> is not modelled.
\<close>

section \<open>Bit fields\<close>

text \<open>
  \<^verbatim>\<open>GdbServer::getfield\<close> and \<^verbatim>\<open>GdbServer::setfield\<close> replace the SystemC bit-field
  operators: \<^verbatim>\<open>(x & ((1 << (_lt + 1)) - 1)) >> _rt\<close>. The 16-bit overload computes in
  \<^verbatim>\<open>int\<close> after integer promotion and converts the result back to \<^verbatim>\<open>uint16_t\<close>.
\<close>

definition getfield :: "32 word \<Rightarrow> nat \<Rightarrow> nat \<Rightarrow> 32 word" where
  "getfield x lt rt = drop_bit rt (x AND (push_bit (lt + 1) 1 - 1))"

definition getfield16 :: "16 word \<Rightarrow> nat \<Rightarrow> nat \<Rightarrow> 16 word" where
  "getfield16 x lt rt =
     ucast (drop_bit rt ((ucast x :: 32 word) AND (push_bit (lt + 1) 1 - 1)))"

definition setfield :: "32 word \<Rightarrow> nat \<Rightarrow> nat \<Rightarrow> 32 word \<Rightarrow> 32 word" where
  "setfield x lt rt val =
     (let mask = push_bit rt (push_bit (lt - rt + 1) 1 - 1)
      in (x AND (NOT mask)) OR (push_bit rt val))"

subsection \<open>Instruction length\<close>

text \<open>\<^verbatim>\<open>GdbServer::is32BitsInstr\<close>, with the source's local names.\<close>

definition is32BitsInstr :: "32 word \<Rightarrow> bool" where
  "is32BitsInstr iab_instr =
    (let de_extended_instr = (getfield iab_instr 3 0 = 0xf);
         de_regi = (getfield iab_instr 2 0 = 3);
         de_regi_long = (de_regi \<and> getfield iab_instr 3 3 = 1);
         de_loadstore = (getfield iab_instr 2 0 = 0x4 \<or> getfield iab_instr 1 0 = 1);
         de_loadstore_long = (de_loadstore \<and> getfield iab_instr 3 3 = 1);
         de_branch = (getfield iab_instr 2 0 = 0);
         de_branch_long_sel = (de_branch \<and> getfield iab_instr 3 3 = 1)
     in de_extended_instr \<or> de_loadstore_long \<or> de_regi_long \<or> de_branch_long_sel)"

section \<open>The target as the server sees it\<close>

text \<open>
  The server reaches the core through \<^verbatim>\<open>fTargetControl\<close>: byte, half-word and word
  reads and writes and bursts, at 32-bit addresses. The hardware layer is outside the
  repository's core; here it is a byte store, little endian (the source notes that the
  Epiphany is a little endian architecture), on which every access succeeds. The return
  codes of the accesses are ignored by the callers modelled below.
\<close>

type_synonym mem = "32 word \<Rightarrow> 8 word"

definition readMem8 :: "mem \<Rightarrow> 32 word \<Rightarrow> 8 word" where
  "readMem8 m a = m a"

definition readMem16 :: "mem \<Rightarrow> 32 word \<Rightarrow> 16 word" where
  "readMem16 m a = ucast (m a) OR push_bit 8 (ucast (m (a + 1)))"

definition readMem32 :: "mem \<Rightarrow> 32 word \<Rightarrow> 32 word" where
  "readMem32 m a =
     ucast (m a) OR push_bit 8 (ucast (m (a + 1)))
       OR push_bit 16 (ucast (m (a + 2))) OR push_bit 24 (ucast (m (a + 3)))"

definition writeMem16 :: "mem \<Rightarrow> 32 word \<Rightarrow> 16 word \<Rightarrow> mem" where
  "writeMem16 m a v = m(a := ucast v, a + 1 := ucast (drop_bit 8 v))"

definition writeMem32 :: "mem \<Rightarrow> 32 word \<Rightarrow> 32 word \<Rightarrow> mem" where
  "writeMem32 m a v =
     m(a := ucast v, a + 1 := ucast (drop_bit 8 v),
       a + 2 := ucast (drop_bit 16 v), a + 3 := ucast (drop_bit 24 v))"

text \<open>Bursts move \<open>n\<close> consecutive bytes from or to the address.\<close>

definition readBurst :: "mem \<Rightarrow> 32 word \<Rightarrow> nat \<Rightarrow> 8 word list" where
  "readBurst m a n = map (\<lambda>i. m (a + of_nat i)) [0..<n]"

fun writeBurst :: "mem \<Rightarrow> 32 word \<Rightarrow> 8 word list \<Rightarrow> mem" where
  "writeBurst m a [] = m"
| "writeBurst m a (b # bs) = writeBurst (m(a := b)) (a + 1) bs"

subsection \<open>Register map and opcodes\<close>

text \<open>
  The addresses of the memory-mapped registers, the indices of the special core
  registers, the opcodes and the debug command values come from headers that are not
  part of the sources at hand. They are the fields of a record that every operation
  takes as its first argument, so that what is proved holds for any values of them.
  \<open>IVT_SAVE_SIZE\<close> is \<^verbatim>\<open>sizeof (fIVTSaveBuff)\<close>.
\<close>

record regmap =
  CORE_R0 :: "32 word"
  CORE_CONFIG :: "32 word"
  CORE_DEBUG :: "32 word"
  CORE_DEBUGCMD :: "32 word"
  ATDSP_SCR_STATUS :: "32 word"
  ATDSP_SCR_PC :: "32 word"
  ATDSP_SCR_IRET :: "32 word"
  ATDSP_SCR_IMASK :: "32 word"
  ATDSP_SCR_ILAT :: "32 word"
  ATDSP_NUM_SCRS_0 :: int
  ATDSP_LR_REGNUM :: "32 word"
  ATDSP_FP_REGNUM :: "32 word"
  ATDSP_SP_REGNUM :: "32 word"
  ATDSP_BKPT_INSTR :: "16 word"
  ATDSP_TRAP_INSTR :: "16 word"
  IDLE_OPCODE :: "16 word"
  ATDSP_DEBUG_HALT :: "32 word"
  ATDSP_DEBUG_RUN :: "32 word"
  ATDSP_OUT_TRAN_FALSE :: "32 word"
  ATDSP_NUM_ENTRIES_IN_IVT :: nat
  IVT_SAVE_SIZE :: nat
  E_UNALIGMENT_LS :: "32 word"
  E_FPU :: "32 word"
  E_UNIMPL :: "32 word"

text \<open>
  The instruction lengths in bytes: an interrupt vector entry and a register are four
  bytes wide, the BKPT and TRAP instructions two.
\<close>

definition ATDSP_INST32LEN :: "32 word" where "ATDSP_INST32LEN = 4"
definition ATDSP_BKPT_INSTLEN :: "32 word" where "ATDSP_BKPT_INSTLEN = 2"
definition ATDSP_TRAP_INSTLEN :: "32 word" where "ATDSP_TRAP_INSTLEN = 2"

text \<open>
  The stop signals are GDB's signal numbers; the stop reply of a TRAP is \<^verbatim>\<open>S05\<close>.
\<close>

definition TARGET_SIGNAL_NONE :: "32 word" where "TARGET_SIGNAL_NONE = 0"
definition TARGET_SIGNAL_HUP :: "32 word" where "TARGET_SIGNAL_HUP = 1"
definition TARGET_SIGNAL_INT :: "32 word" where "TARGET_SIGNAL_INT = 2"
definition TARGET_SIGNAL_QUIT :: "32 word" where "TARGET_SIGNAL_QUIT = 3"
definition TARGET_SIGNAL_ILL :: "32 word" where "TARGET_SIGNAL_ILL = 4"
definition TARGET_SIGNAL_TRAP :: "32 word" where "TARGET_SIGNAL_TRAP = 5"
definition TARGET_SIGNAL_ABRT :: "32 word" where "TARGET_SIGNAL_ABRT = 6"
definition TARGET_SIGNAL_FPE :: "32 word" where "TARGET_SIGNAL_FPE = 8"
definition TARGET_SIGNAL_BUS :: "32 word" where "TARGET_SIGNAL_BUS = 10"

subsection \<open>Register access\<close>

definition readCoreStatus :: "regmap \<Rightarrow> mem \<Rightarrow> 32 word" where
  "readCoreStatus K m = readMem32 m (CORE_CONFIG K + ATDSP_SCR_STATUS K * ATDSP_INST32LEN)"

definition readPc :: "regmap \<Rightarrow> mem \<Rightarrow> 32 word" where
  "readPc K m = readMem32 m (CORE_CONFIG K + ATDSP_SCR_PC K * ATDSP_INST32LEN)"

definition writePc :: "regmap \<Rightarrow> 32 word \<Rightarrow> mem \<Rightarrow> mem" where
  "writePc K addr m = writeMem32 m (CORE_CONFIG K + ATDSP_SCR_PC K * ATDSP_INST32LEN) addr"

definition readLr :: "regmap \<Rightarrow> mem \<Rightarrow> 32 word" where
  "readLr K m = readMem32 m (CORE_R0 K + ATDSP_LR_REGNUM K * ATDSP_INST32LEN)"

definition readFp :: "regmap \<Rightarrow> mem \<Rightarrow> 32 word" where
  "readFp K m = readMem32 m (CORE_R0 K + ATDSP_FP_REGNUM K * ATDSP_INST32LEN)"

definition readSp :: "regmap \<Rightarrow> mem \<Rightarrow> 32 word" where
  "readSp K m = readMem32 m (CORE_R0 K + ATDSP_SP_REGNUM K * ATDSP_INST32LEN)"

definition writeLr :: "regmap \<Rightarrow> 32 word \<Rightarrow> mem \<Rightarrow> mem" where
  "writeLr K addr m = writeMem32 m (CORE_R0 K + ATDSP_LR_REGNUM K * ATDSP_INST32LEN) addr"

definition writeFp :: "regmap \<Rightarrow> 32 word \<Rightarrow> mem \<Rightarrow> mem" where
  "writeFp K addr m = writeMem32 m (CORE_R0 K + ATDSP_FP_REGNUM K * ATDSP_INST32LEN) addr"

definition writeSp :: "regmap \<Rightarrow> 32 word \<Rightarrow> mem \<Rightarrow> mem" where
  "writeSp K addr m = writeMem32 m (CORE_R0 K + ATDSP_SP_REGNUM K * ATDSP_INST32LEN) addr"

definition readGpr :: "regmap \<Rightarrow> 32 word \<Rightarrow> mem \<Rightarrow> 32 word" where
  "readGpr K regNum m =
     (if regNum = ATDSP_LR_REGNUM K then readLr K m
      else if regNum = ATDSP_FP_REGNUM K then readFp K m
      else if regNum = ATDSP_SP_REGNUM K then readSp K m
      else readMem32 m (CORE_R0 K + regNum * ATDSP_INST32LEN))"

definition writeGpr :: "regmap \<Rightarrow> 32 word \<Rightarrow> 32 word \<Rightarrow> mem \<Rightarrow> mem" where
  "writeGpr K regNum val m =
     (if regNum = ATDSP_LR_REGNUM K then writeLr K val m
      else if regNum = ATDSP_FP_REGNUM K then writeFp K val m
      else if regNum = ATDSP_SP_REGNUM K then writeSp K val m
      else writeMem32 m (CORE_R0 K + regNum * ATDSP_INST32LEN) val)"

text \<open>
  \<^verbatim>\<open>readScrGrp0\<close> asserts that the index is inside the group; a failed assertion aborts
  the server, which is the value \<open>None\<close> here.
\<close>

definition readScrGrp0 :: "regmap \<Rightarrow> 32 word \<Rightarrow> mem \<Rightarrow> 32 word option" where
  "readScrGrp0 K regNum m =
     (if \<not> sint regNum < ATDSP_NUM_SCRS_0 K then None
      else if regNum = ATDSP_SCR_PC K then Some (readPc K m)
      else Some (readMem32 m (CORE_CONFIG K + regNum * ATDSP_INST32LEN)))"

subsection \<open>Debug and exception state\<close>

definition isTargetInDebugState :: "regmap \<Rightarrow> mem \<Rightarrow> bool" where
  "isTargetInDebugState K m =
     (let valueOfDebugReg = readMem32 m (CORE_DEBUG K)
      in getfield valueOfDebugReg 0 0 = ATDSP_DEBUG_HALT K
         \<and> getfield valueOfDebugReg 1 1 = ATDSP_OUT_TRAN_FALSE K)"

text \<open>
  \<^verbatim>\<open>isTargetExceptionState (unsigned &exCause)\<close>: the reference parameter is an
  argument and the second component of the result.
\<close>

definition isTargetExceptionState :: "regmap \<Rightarrow> mem \<Rightarrow> 32 word \<Rightarrow> bool \<times> 32 word" where
  "isTargetExceptionState K m exCause =
     (let coreStatus = readCoreStatus K m;
          exStat = getfield coreStatus 18 16
      in if exStat \<noteq> 0 then
           (let exCause = TARGET_SIGNAL_ABRT;
                exCause = (if exStat = E_UNALIGMENT_LS K then TARGET_SIGNAL_BUS else exCause);
                exCause = (if exStat = E_FPU K then TARGET_SIGNAL_FPE else exCause);
                exCause = (if exStat = E_UNIMPL K then TARGET_SIGNAL_ILL else exCause)
            in (True, exCause))
         else (False, exCause))"

subsection \<open>A register map for concrete runs\<close>

text \<open>
  Where a statement is evaluated on a concrete input, the register map is this one, with
  the values of the Epiphany memory map: the general purpose registers from 0xF0000, the
  special core registers from 0xF0400, ten interrupt vector entries and a save buffer of
  sixteen entries.
\<close>

definition epiphany_regmap :: regmap where
  "epiphany_regmap =
     \<lparr> CORE_R0 = 0xF0000, CORE_CONFIG = 0xF0400, CORE_DEBUG = 0xF040C,
       CORE_DEBUGCMD = 0xF0448,
       ATDSP_SCR_STATUS = 1, ATDSP_SCR_PC = 2, ATDSP_SCR_IRET = 8, ATDSP_SCR_IMASK = 9,
       ATDSP_SCR_ILAT = 10, ATDSP_NUM_SCRS_0 = 32,
       ATDSP_LR_REGNUM = 14, ATDSP_FP_REGNUM = 11, ATDSP_SP_REGNUM = 13,
       ATDSP_BKPT_INSTR = 0x01C2, ATDSP_TRAP_INSTR = 0x03E2, IDLE_OPCODE = 0x01B2,
       ATDSP_DEBUG_HALT = 1, ATDSP_DEBUG_RUN = 0, ATDSP_OUT_TRAN_FALSE = 0,
       ATDSP_NUM_ENTRIES_IN_IVT = 10, IVT_SAVE_SIZE = 64,
       E_UNALIGMENT_LS = 2, E_FPU = 3, E_UNIMPL = 4 \<rparr>"

section \<open>The server\<close>

subsection \<open>Matchpoint table\<close>

datatype MpType = BP_MEMORY | BP_HARDWARE | WP_WRITE | WP_READ | WP_ACCESS

type_synonym mp_table = "MpType \<times> 32 word \<rightharpoonup> 16 word"

text \<open>
  Modelled from the spec: the class \<^verbatim>\<open>MpHash\<close> (\<^verbatim>\<open>MpHash.h\<close>, \<^verbatim>\<open>MpHash.cpp\<close>) is missing. The
  matchpoint table is an associative store keyed by (matchpoint kind, address) that
  gives the original 16-bit instruction, with unique keys and insert, lookup and remove.
  \<open>MpHash_add\<close> on a key that is present leaves the table as it is, so that keys stay
  unique. \<open>MpHash_remove\<close> gives the instruction that was stored, or \<open>None\<close> where the
  source's \<^verbatim>\<open>remove\<close> returns false.
\<close>

definition MpHash_lookup :: "MpType \<Rightarrow> 32 word \<Rightarrow> mp_table \<Rightarrow> 16 word option" where
  "MpHash_lookup ty a h = h (ty, a)"

definition MpHash_add :: "MpType \<Rightarrow> 32 word \<Rightarrow> 16 word \<Rightarrow> mp_table \<Rightarrow> mp_table" where
  "MpHash_add ty a instr h = (if h (ty, a) = None then h((ty, a) \<mapsto> instr) else h)"

definition MpHash_remove :: "MpType \<Rightarrow> 32 word \<Rightarrow> mp_table \<Rightarrow> 16 word option \<times> mp_table" where
  "MpHash_remove ty a h = (h (ty, a), h((ty, a) := None))"

subsection \<open>State of the server\<close>

text \<open>
  The members of \<^verbatim>\<open>GdbServer\<close> that the operations below read or write, with the target
  store behind \<^verbatim>\<open>fTargetControl\<close>. \<open>pkt\<close> is the data of the packet buffer up to its
  length; \<open>sent\<close> lists the packets handed to \<^verbatim>\<open>rsp->putPkt\<close>, the oldest first;
  \<open>connected\<close> is cleared by \<^verbatim>\<open>rsp->rspClose\<close>.
\<close>

record gdb =
  mem :: mem
  mpHash :: mp_table
  fIVTSaveBuff :: "8 word list"
  fIsTargetRunning :: bool
  pkt :: string
  sent :: "string list"
  connected :: bool
  osProcessReply :: string

text \<open>
  Modelled from the spec: the class \<^verbatim>\<open>RspPacket\<close> is missing. \<open>packStr\<close> makes a string the
  packet; \<open>packNStr\<close> makes the packet of a prefix character (the reply kind \<^verbatim>\<open>m\<close> or
  \<^verbatim>\<open>l\<close>) and the first \<open>n\<close> characters of a string.
\<close>

definition packStr :: "string \<Rightarrow> gdb \<Rightarrow> gdb" where
  "packStr s st = st\<lparr>pkt := s\<rparr>"


definition putPkt :: "gdb \<Rightarrow> gdb" where
  "putPkt st = st\<lparr>sent := sent st @ [pkt st]\<rparr>"


subsection \<open>OS data: processes\<close>

text \<open>
  \<^verbatim>\<open>GdbServer::intStr\<close> writes an integer to a string stream with a base, a fill
  character \<^verbatim>\<open>0\<close> and a width. In base 8 and 16 a stream prints the 32-bit pattern of the
  value; any other base prints decimal.
\<close>

definition digit_char :: "nat \<Rightarrow> char" where
  "digit_char d = ''0123456789abcdef'' ! (d mod 16)"

function digits :: "nat \<Rightarrow> nat \<Rightarrow> string" where
  "digits b n = (if b < 2 \<or> n < b then [digit_char n] else digits b (n div b) @ [digit_char (n mod b)])"
  by pat_completeness auto
termination
  by (relation "measure snd") auto





text \<open>
  The constructor \<^verbatim>\<open>GdbServer::GdbServer\<close>: the target is not running, the packet and the
  matchpoint table are new. \<open>zero_mem\<close> is a target store of zero bytes.
\<close>

definition zero_mem :: mem where
  "zero_mem = (\<lambda>a. 0)"

definition GdbServer :: "mem \<Rightarrow> gdb" where
  "GdbServer m =
     \<lparr> mem = m, mpHash = Map.empty, fIVTSaveBuff = [], fIsTargetRunning = False,
       pkt = [], sent = [], connected = True, osProcessReply = [] \<rparr>"

text \<open>\<^verbatim>\<open>rsp->getPkt (pkt)\<close> stores the packet that was received in the packet buffer.\<close>

definition getPkt :: "string \<Rightarrow> gdb \<Rightarrow> gdb" where
  "getPkt received st = st\<lparr>pkt := received\<rparr>"

subsection \<open>Stop replies and resuming\<close>

text \<open>
  A C string ends at its first NUL: \<^verbatim>\<open>pkt->setLen (strlen (pkt->data))\<close>. \<open>sprintf_d\<close> is
  the conversion \<^verbatim>\<open>%d\<close>. \<^verbatim>\<open>Utils::hex2Char\<close> is not part of the sources at hand and is
  an argument of \<open>rspReportException\<close>.
\<close>

definition c_str :: "string \<Rightarrow> string" where
  "c_str s = takeWhile (\<lambda>c. c \<noteq> CHR 0x00) s"

definition sprintf_d :: "int \<Rightarrow> string" where
  "sprintf_d v = (if v < 0 then CHR ''-'' # digits 10 (nat (- v)) else digits 10 (nat v))"

definition rspReportException ::
  "(8 word \<Rightarrow> char) \<Rightarrow> 32 word \<Rightarrow> 32 word \<Rightarrow> 32 word \<Rightarrow> gdb \<Rightarrow> gdb" where
  "rspReportException hex2Char stoppedPC threadID exCause st =
     (let d0 = (if threadID = 0 then CHR ''S'' else CHR ''T'');
          d1 = hex2Char (ucast (drop_bit 4 exCause));
          d2 = hex2Char (ucast (exCause mod 16));
          data = (if threadID \<noteq> 0 then ''T05thread:'' @ sprintf_d (sint threadID) @ '';''
                  else [d0, d1, d2]);
          st1 = st\<lparr>pkt := c_str data\<rparr>;
          st2 = putPkt st1
      in st2\<lparr>fIsTargetRunning := False\<rparr>)"

definition targetResume :: "regmap \<Rightarrow> gdb \<Rightarrow> gdb" where
  "targetResume K st =
     st\<lparr>mem := writeMem32 (mem st) (CORE_DEBUGCMD K) (ATDSP_DEBUG_RUN K),
        fIsTargetRunning := True\<rparr>"

subsection \<open>Matchpoints\<close>

text \<open>
  The packets are broken up by \<^verbatim>\<open>sscanf\<close>, which is the C library's. Its outcome on a
  packet is an argument of the handlers: a function from the packet data and the format
  to the return value and the values stored. The matchpoint kind is read as an integer
  into the enumeration, whose values are the numbers of the \<^verbatim>\<open>Z\<close> packets.
\<close>

definition MpType_of_int :: "int \<Rightarrow> MpType option" where
  "MpType_of_int n =
     (if n = 0 then Some BP_MEMORY else if n = 1 then Some BP_HARDWARE
      else if n = 2 then Some WP_WRITE else if n = 3 then Some WP_READ
      else if n = 4 then Some WP_ACCESS else None)"

definition putBreakPointInstruction :: "regmap \<Rightarrow> 32 word \<Rightarrow> gdb \<Rightarrow> gdb" where
  "putBreakPointInstruction K bkpt_addr st =
     st\<lparr>mem := writeMem16 (mem st) bkpt_addr (ATDSP_BKPT_INSTR K)\<rparr>"

definition isHitInBreakPointInstruction :: "regmap \<Rightarrow> 32 word \<Rightarrow> gdb \<Rightarrow> bool" where
  "isHitInBreakPointInstruction K bkpt_addr st =
     (ATDSP_BKPT_INSTR K = readMem16 (mem st) bkpt_addr)"

definition rspInsertMatchpoint ::
  "regmap \<Rightarrow> (string \<Rightarrow> string \<Rightarrow> int \<times> int \<times> 32 word \<times> int) \<Rightarrow> gdb \<Rightarrow> gdb" where
  "rspInsertMatchpoint K sscanf st =
     (case sscanf (pkt st) ''Z%1d,%x,%1d'' of
        (n, ty, a, len) \<Rightarrow>
          if n \<noteq> 3 then putPkt (packStr ''E01'' st)
          else
            (case MpType_of_int ty of
               Some BP_MEMORY \<Rightarrow>
                 (let bpMemVal = readMem16 (mem st) a;
                      st1 = st\<lparr>mpHash := MpHash_add BP_MEMORY a bpMemVal (mpHash st)\<rparr>;
                      st2 = putBreakPointInstruction K a st1
                  in putPkt (packStr ''OK'' st2))
             | Some BP_HARDWARE \<Rightarrow> putPkt (packStr [] st)
             | Some WP_WRITE \<Rightarrow> putPkt (packStr [] st)
             | Some WP_READ \<Rightarrow> putPkt (packStr [] st)
             | Some WP_ACCESS \<Rightarrow> putPkt (packStr [] st)
             | None \<Rightarrow> putPkt (packStr ''E01'' st)))"

definition rspRemoveMatchpoint ::
  "regmap \<Rightarrow> (string \<Rightarrow> string \<Rightarrow> int \<times> int \<times> 32 word \<times> int) \<Rightarrow> gdb \<Rightarrow> gdb" where
  "rspRemoveMatchpoint K sscanf st =
     (case sscanf (pkt st) ''z%1d,%x,%1d'' of
        (n, ty, a, len) \<Rightarrow>
          if n \<noteq> 3 then putPkt (packStr ''E01'' st)
          else
            (case MpType_of_int ty of
               Some BP_MEMORY \<Rightarrow>
                 (let st1 = (case MpHash_remove BP_MEMORY a (mpHash st) of
                               (Some instr, h) \<Rightarrow>
                                 st\<lparr>mpHash := h, mem := writeMem16 (mem st) a instr\<rparr>
                             | (None, h) \<Rightarrow> st\<lparr>mpHash := h\<rparr>)
                  in putPkt (packStr ''OK'' st1))
             | Some BP_HARDWARE \<Rightarrow> putPkt (packStr [] st)
             | Some WP_WRITE \<Rightarrow> putPkt (packStr [] st)
             | Some WP_READ \<Rightarrow> putPkt (packStr [] st)
             | Some WP_ACCESS \<Rightarrow> putPkt (packStr [] st)
             | None \<Rightarrow> putPkt (packStr ''E01'' st)))"

subsection \<open>File-I/O reply\<close>

text \<open>
  \<^verbatim>\<open>rspFileIOreply\<close>: the two \<^verbatim>\<open>sscanf\<close> calls read \<^verbatim>\<open>long\<close> values, 64 bits wide on an
  LP64 host; \<^verbatim>\<open>writeGpr\<close> takes a \<^verbatim>\<open>uint32_t\<close>, so the call keeps the low 32 bits.
\<close>

definition rspFileIOreply ::
  "regmap \<Rightarrow> (string \<Rightarrow> string \<Rightarrow> int \<times> 64 word \<times> 64 word)
     \<Rightarrow> (string \<Rightarrow> string \<Rightarrow> int \<times> 64 word) \<Rightarrow> gdb \<Rightarrow> gdb" where
  "rspFileIOreply K sscanf2 sscanf1 st =
     (case sscanf2 (pkt st) ''F%lx,%lx'' of
        (n2, result_io, host_respond_error_code) \<Rightarrow>
          if n2 = 2
          then
            (let st1 = st\<lparr>mem := writeGpr K 0 (ucast result_io) (mem st)\<rparr>
             in st1\<lparr>mem := writeGpr K 3 (ucast host_respond_error_code) (mem st1)\<rparr>)
          else
            (case sscanf1 (pkt st) ''F%lx'' of
               (n1, result_io) \<Rightarrow>
                 if n1 = 1 then st\<lparr>mem := writeGpr K 0 (ucast result_io) (mem st)\<rparr>
                 else st))"

subsection \<open>The dispatcher\<close>




subsection \<open>Arguments for concrete runs\<close>

text \<open>
  For the runs on concrete inputs: a scanner with one outcome on every packet, handlers
  that leave the state alone (for packets that are none of theirs), and the usual
  conversion of a nibble to a hexadecimal digit.
\<close>

definition const_scan :: "'a \<Rightarrow> string \<Rightarrow> string \<Rightarrow> 'a" where
  "const_scan outcome data format = outcome"


definition hex_digit :: "8 word \<Rightarrow> char" where
  "hex_digit d = digit_char (unat d)"


subsection \<open>The step engine\<close>

text \<open>
  What ends \<open>rspStep\<close> without a stop reply: \<^verbatim>\<open>exit (8)\<close>, a failed \<^verbatim>\<open>assert\<close>, and a
  wait for the halt that never ends. Assertions are compiled in: the removal of the
  hidden breakpoints is written inside \<^verbatim>\<open>assert\<close>.
\<close>

datatype fault = Exit nat | AssertFailed | Diverges

definition saveIVT :: "regmap \<Rightarrow> gdb \<Rightarrow> gdb" where
  "saveIVT K st = st\<lparr>fIVTSaveBuff := readBurst (mem st) 0 (IVT_SAVE_SIZE K)\<rparr>"

definition restoreIVT :: "regmap \<Rightarrow> gdb \<Rightarrow> gdb" where
  "restoreIVT K st =
     st\<lparr>mem := writeBurst (mem st) 0 (take (IVT_SAVE_SIZE K) (fIVTSaveBuff st))\<rparr>"

text \<open>
  The core runs while the server polls. \<open>target k m\<close> is the store that the poll number
  \<open>k\<close> of the DEBUG register finds when the core was resumed in the store \<open>m\<close>. The loop
  \<^verbatim>\<open>while (true) { if (isTargetInDebugState ()) break; }\<close> ends at the first poll that
  finds the core halted; if there is none it does not end, which is the value \<open>None\<close>.
\<close>

partial_function (option) wait_halt ::
  "regmap \<Rightarrow> (nat \<Rightarrow> mem \<Rightarrow> mem) \<Rightarrow> mem \<Rightarrow> nat \<Rightarrow> mem option" where
  "wait_halt K target m k =
     (if isTargetInDebugState K (target k m) then Some (target k m)
      else wait_halt K target m (Suc k))"

declare wait_halt.simps [code]

text \<open>
  The source puts a hidden breakpoint twice with the same statements, for the sequential
  address and for the jump address: the instruction is saved in the table under
  \<open>BP_MEMORY\<close> if the table has no entry for the address, and BKPT is written.
\<close>

definition put_hidden_bkpt :: "regmap \<Rightarrow> 32 word \<Rightarrow> gdb \<Rightarrow> gdb" where
  "put_hidden_bkpt K bkpt_addr st =
     (let st1 = (if MpHash_lookup BP_MEMORY bkpt_addr (mpHash st) = None
                 then (let bpVal = readMem16 (mem st) bkpt_addr
                       in st\<lparr>mpHash := MpHash_add BP_MEMORY bkpt_addr bpVal (mpHash st)\<rparr>)
                 else st)
      in putBreakPointInstruction K bkpt_addr st1)"

text \<open>
  The jump address: the sequential address unless the instruction is a branch by an
  immediate, an RTI or a jump by register. \<open>None\<close> is the failed assertion of
  \<open>readScrGrp0\<close>.
\<close>

definition jump_addr ::
  "regmap \<Rightarrow> mem \<Rightarrow> 32 word \<Rightarrow> 16 word \<Rightarrow> 16 word \<Rightarrow> bool \<Rightarrow> 32 word \<Rightarrow> 32 word option" where
  "jump_addr K m pc instrOpcode instrExt is32 bkpt_addr =
     (let bkpt_jump_addr = bkpt_addr;
          bkpt_jump_addr =
            (if getfield16 instrOpcode 2 0 = 0
             then
               (let immExt = setfield 0 7 0 (ucast (getfield16 instrOpcode 15 8));
                    immExt =
                      (if is32
                       then
                         (let immExt = setfield immExt 23 8 (ucast (getfield16 instrExt 15 0))
                          in if getfield immExt 23 23 = 1 then setfield immExt 31 24 0xff
                             else immExt)
                       else
                         (if getfield immExt 7 7 = 1 then setfield immExt 31 8 0xffffff
                          else immExt))
                in pc + push_bit 1 immExt)
             else bkpt_jump_addr)
      in case (if getfield16 instrOpcode 8 0 = 0x1d2
               then readScrGrp0 K (ATDSP_SCR_IRET K) m else Some bkpt_jump_addr) of
           None \<Rightarrow> None
         | Some bkpt_jump_addr \<Rightarrow>
             (let bkpt_jump_addr =
                    (if getfield16 instrOpcode 8 0 = 0x142 \<or> getfield16 instrOpcode 8 0 = 0x152
                     then
                       (let regShortNum = (ucast (getfield16 instrOpcode 12 10) :: 8 word)
                        in readGpr K (ucast regShortNum) m)
                     else bkpt_jump_addr);
                  bkpt_jump_addr =
                    (if getfield16 instrOpcode 8 0 = 0x14f \<or> getfield16 instrOpcode 8 0 = 0x15f
                     then
                       (let regLongNum =
                              (ucast (push_bit 3 (ucast (getfield16 instrExt 12 10) :: 32 word)
                                 OR ucast (getfield16 instrOpcode 12 10)) :: 8 word)
                        in readGpr K (ucast regLongNum) m)
                     else bkpt_jump_addr)
              in Some bkpt_jump_addr))"

text \<open>
  The two loops over the interrupt vector table, entry 0 (reset) left out. The loop of
  the IDLE case writes every entry; the loop of the general case leaves out the entry at
  the program counter.
\<close>

definition put_ivt_bkpts_idle :: "regmap \<Rightarrow> gdb \<Rightarrow> gdb" where
  "put_ivt_bkpts_idle K st =
     fold (\<lambda>i s. putBreakPointInstruction K (of_nat i * ATDSP_INST32LEN) s)
       [1..<ATDSP_NUM_ENTRIES_IN_IVT K] st"

definition put_ivt_bkpts :: "regmap \<Rightarrow> 32 word \<Rightarrow> gdb \<Rightarrow> gdb" where
  "put_ivt_bkpts K pc st =
     fold (\<lambda>i s. let bkpt_addr = of_nat i * ATDSP_INST32LEN
                  in if pc \<noteq> bkpt_addr then putBreakPointInstruction K bkpt_addr s else s)
       [1..<ATDSP_NUM_ENTRIES_IN_IVT K] st"

text \<open>
  \<open>rspStep\<close> for an instruction that is neither IDLE nor TRAP, in parts. \<open>rspStep_hidden\<close>
  runs from the write of the program counter to the hidden breakpoints at the sequential
  and the jump address: it gives the state, the program counter (the local \<^verbatim>\<open>pc_\<close> of the
  source, \<open>pc\<close> here) and the two breakpoint addresses. \<open>rspStep_plant\<close> goes on with the
  interrupt vector table, to the point where the core is resumed. \<open>rspStep_finish\<close> runs
  from the halt.
\<close>

definition rspStep_hidden ::
  "regmap \<Rightarrow> 32 word \<Rightarrow> gdb \<Rightarrow> fault + (gdb \<times> 32 word \<times> 32 word \<times> 32 word)" where
  "rspStep_hidden K addr st0 =
     (let st = st0\<lparr>mem := writePc K addr (mem st0)\<rparr>;
          pc = readPc K (mem st)
      in if addr \<noteq> pc then Inl (Exit 8)
         else
           (let instrOpcode = readMem16 (mem st) pc;
                instrExt = readMem16 (mem st) (pc + 2);
                bkpt_addr = addr + 2;
                is32 = is32BitsInstr (ucast instrOpcode);
                bkpt_addr = (if is32 then bkpt_addr + 2 else bkpt_addr);
                st = put_hidden_bkpt K bkpt_addr st
            in case jump_addr K (mem st) pc instrOpcode instrExt is32 bkpt_addr of
                 None \<Rightarrow> Inl AssertFailed
               | Some bkpt_jump_addr \<Rightarrow>
                   (let st = (if bkpt_jump_addr \<noteq> bkpt_addr
                              then put_hidden_bkpt K bkpt_jump_addr st else st)
                    in Inr (st, pc, bkpt_addr, bkpt_jump_addr))))"

definition rspStep_plant ::
  "regmap \<Rightarrow> 32 word \<Rightarrow> gdb \<Rightarrow> fault + (gdb \<times> 32 word \<times> 32 word \<times> 32 word)" where
  "rspStep_plant K addr st0 =
     (case rspStep_hidden K addr st0 of
        Inl f \<Rightarrow> Inl f
      | Inr (st, pc, bkpt_addr, bkpt_jump_addr) \<Rightarrow>
          (let st1 = saveIVT K st;
               st2 = put_ivt_bkpts K pc st1
           in Inr (st2, pc, bkpt_addr, bkpt_jump_addr)))"

definition rspStep_finish ::
  "regmap \<Rightarrow> (8 word \<Rightarrow> char) \<Rightarrow> 32 word \<Rightarrow> 32 word \<Rightarrow> gdb \<Rightarrow> fault + gdb" where
  "rspStep_finish K hex2Char bkpt_addr bkpt_jump_addr st0 =
     (let st = restoreIVT K st0;
          prevPc = readPc K (mem st) - ATDSP_BKPT_INSTLEN
      in if \<not> (MpHash_lookup BP_MEMORY prevPc (mpHash st) \<noteq> None
                \<or> isHitInBreakPointInstruction K bkpt_jump_addr st)
         then Inl AssertFailed
         else
           (let st = st\<lparr>mem := writePc K prevPc (mem st)\<rparr>
            in case MpHash_remove BP_MEMORY bkpt_addr (mpHash st) of
                 (None, h) \<Rightarrow> Inl AssertFailed
               | (Some instr_saved, h) \<Rightarrow>
                   (let st = st\<lparr>mpHash := h, mem := writeMem16 (mem st) bkpt_addr instr_saved\<rparr>
                    in if bkpt_jump_addr \<noteq> bkpt_addr
                       then
                         (case MpHash_remove BP_MEMORY bkpt_jump_addr (mpHash st) of
                            (None, h) \<Rightarrow> Inl AssertFailed
                          | (Some instr_saved, h) \<Rightarrow>
                              Inr (rspReportException hex2Char prevPc 0 TARGET_SIGNAL_TRAP
                                (st\<lparr>mpHash := h,
                                    mem := writeMem16 (mem st) bkpt_jump_addr instr_saved\<rparr>)))
                       else Inr (rspReportException hex2Char prevPc 0 TARGET_SIGNAL_TRAP st))))"

text \<open>
  The step at an IDLE instruction, from the test of the opcode to the return. The test
  \<^verbatim>\<open>getfield (coreStatus, 1, 1) == 0 && (((~imaskReg) & ilatReg) != 0)\<close> of this case is
  \<open>interrupt_pending\<close>.
\<close>

definition interrupt_pending :: "32 word \<Rightarrow> 32 word \<Rightarrow> 32 word \<Rightarrow> bool" where
  "interrupt_pending coreStatus imaskReg ilatReg =
     (getfield coreStatus 1 1 = 0 \<and> ((NOT imaskReg) AND ilatReg) \<noteq> 0)"

definition rspStep_idle ::
  "regmap \<Rightarrow> (8 word \<Rightarrow> char) \<Rightarrow> (nat \<Rightarrow> mem \<Rightarrow> mem) \<Rightarrow> gdb \<Rightarrow> fault + gdb" where
  "rspStep_idle K hex2Char target st =
     (let coreStatus = readCoreStatus K (mem st)
      in case readScrGrp0 K (ATDSP_SCR_IMASK K) (mem st) of
           None \<Rightarrow> Inl AssertFailed
         | Some imaskReg \<Rightarrow>
             (case readScrGrp0 K (ATDSP_SCR_ILAT K) (mem st) of
                None \<Rightarrow> Inl AssertFailed
              | Some ilatReg \<Rightarrow>
                  (case (if interrupt_pending coreStatus imaskReg ilatReg
                         then
                           (let st1 = saveIVT K st;
                                st2 = put_ivt_bkpts_idle K st1;
                                st3 = targetResume K st2
                            in case wait_halt K target (mem st3) 0 of
                                 None \<Rightarrow> Inl Diverges
                               | Some m \<Rightarrow> Inr (restoreIVT K (st3\<lparr>mem := m\<rparr>)))
                         else Inr st) of
                     Inl f \<Rightarrow> Inl f
                   | Inr st4 \<Rightarrow>
                       (let pc = readPc K (mem st4) - ATDSP_BKPT_INSTLEN;
                            st5 = st4\<lparr>mem := writePc K pc (mem st4)\<rparr>
                        in Inr (rspReportException hex2Char pc 0 TARGET_SIGNAL_TRAP st5)))))"

text \<open>
  \<^verbatim>\<open>rspStep (addr, except)\<close>. The exception is ignored by the source and is no argument
  here. \<open>redirectSdioOnTrap\<close>, the handler of the TRAP instruction, is an argument. The
  cause that \<open>isTargetExceptionState\<close> is given is not initialised in the source and is
  read only where the call has set it; it is 0 here.
\<close>

definition rspStep ::
  "regmap \<Rightarrow> (8 word \<Rightarrow> char) \<Rightarrow> (nat \<Rightarrow> mem \<Rightarrow> mem) \<Rightarrow> (8 word \<Rightarrow> gdb \<Rightarrow> gdb)
     \<Rightarrow> 32 word \<Rightarrow> gdb \<Rightarrow> fault + gdb" where
  "rspStep K hex2Char target redirectSdioOnTrap addr st =
     (if \<not> isTargetInDebugState K (mem st) then Inl (Exit 8)
      else
        (let reportedPc = readPc K (mem st)
         in case isTargetExceptionState K (mem st) 0 of
              (isExState, exCause) \<Rightarrow>
                if isExState then Inr (rspReportException hex2Char reportedPc 0 exCause st)
                else
                  (let instrOpcode = readMem16 (mem st) reportedPc
                   in if getfield16 instrOpcode 8 0 = IDLE_OPCODE K
                      then rspStep_idle K hex2Char target st
                      else if getfield16 instrOpcode 9 0 = ATDSP_TRAP_INSTR K
                      then
                        (let st1 = st\<lparr>fIsTargetRunning := False\<rparr>;
                             trapNumber = (ucast (getfield16 instrOpcode 15 10) :: 8 word);
                             st2 = redirectSdioOnTrap trapNumber st1
                         in Inr (st2\<lparr>mem := writePc K (addr + ATDSP_TRAP_INSTLEN) (mem st2)\<rparr>))
                      else
                        (case rspStep_plant K addr st of
                           Inl f \<Rightarrow> Inl f
                         | Inr (st1, pc, bkpt_addr, bkpt_jump_addr) \<Rightarrow>
                             (let st2 = targetResume K st1
                              in case wait_halt K target (mem st2) 0 of
                                   None \<Rightarrow> Inl Diverges
                                 | Some m \<Rightarrow>
                                     rspStep_finish K hex2Char bkpt_addr bkpt_jump_addr
                                       (st2\<lparr>mem := m\<rparr>))))))"

subsection \<open>A step next to a user breakpoint\<close>

text \<open>
  The core is halted at 0x100 on a NOP (0x01A2), a 16-bit instruction; the instruction
  0x1234 follows at 0x102. The client has set a breakpoint at 0x102 with the packet
  \<^verbatim>\<open>Z0,102,2\<close>. The step is asked for at 0x100. The core then runs the NOP and the BKPT
  at 0x102 and halts with the program counter past the BKPT, at 0x104: \<open>halts_at p\<close> is
  a core that every poll finds halted with program counter \<open>p\<close>.
\<close>

definition stepping_mem :: mem where
  "stepping_mem =
     writeMem16 (writeMem16 (writeMem32 (writeMem32 zero_mem 0xF040C 1) 0xF0408 0x100)
       0x100 0x01A2) 0x102 0x1234"

definition halts_at :: "32 word \<Rightarrow> nat \<Rightarrow> mem \<Rightarrow> mem" where
  "halts_at p k m = writeMem32 (writeMem32 m 0xF0408 p) 0xF040C 1"

definition no_redirect :: "8 word \<Rightarrow> gdb \<Rightarrow> gdb" where
  "no_redirect trapNumber st = st"

definition user_bp_state :: gdb where
  "user_bp_state =
     rspInsertMatchpoint epiphany_regmap (const_scan (3, 0, 0x102, 2))
       (getPkt ''Z0,102,2'' (GdbServer stepping_mem))"

definition step_next_to_user_bp :: "fault + gdb" where
  "step_next_to_user_bp =
     rspStep epiphany_regmap hex_digit (halts_at 0x104) no_redirect 0x100 user_bp_state"



section \<open>The shared-memory manager\<close>

text \<open>
  The table of \<^verbatim>\<open>e_shm.h\<close>. The fields of \<^verbatim>\<open>e_shmseg_t\<close> carry the prefix \<open>seg_\<close>, as
  \<open>size\<close> is a constant of HOL. The host is taken to be LP64, as in the layout the table
  is documented with: \<^verbatim>\<open>size_t\<close>, \<^verbatim>\<open>off_t\<close> and pointers are 64 bits wide,
  \<^verbatim>\<open>unsigned\<close> is 32 bits wide. A region name is the string before the terminating NUL;
  \<^verbatim>\<open>strncpy\<close> keeps at most 256 characters of it.
\<close>

record e_shmseg =
  seg_addr :: "64 word"
  seg_name :: string
  seg_size :: "64 word"
  seg_paddr :: "64 word"
  seg_offset :: "64 word"

record e_shmseg_pvt =
  shm_seg :: e_shmseg
  refcnt :: "32 word"
  valid :: "32 word"

record e_shmtable =
  magic :: "32 word"
  padding :: "32 word"
  regions :: "e_shmseg_pvt list"
  free_space :: "32 word"
  next_free_offset :: "64 word"
  paddr_epi :: "64 word"
  paddr_cpu :: "64 word"
  heap :: "64 word"

definition MAX_SHM_REGIONS :: nat where "MAX_SHM_REGIONS = 64"

text \<open>
  The state of a host process: the file-scope pointer \<^verbatim>\<open>shm_table\<close> (0 is \<^verbatim>\<open>NULL\<close>), the
  table it points to, the value of the named semaphore behind \<^verbatim>\<open>tbl->lock\<close>, and
  \<^verbatim>\<open>errno\<close>.
\<close>

record shm_state =
  shm_table :: "64 word"
  tbl :: e_shmtable
  sem :: nat
  errno :: int

definition EINVAL :: int where "EINVAL = 22"
definition EEXIST :: int where "EEXIST = 17"
definition ENOMEM :: int where "ENOMEM = 12"

datatype e_return = E_OK | E_ERR

text \<open>
  What ends a call without a return: a failed \<^verbatim>\<open>assert\<close>, a \<^verbatim>\<open>sem_wait\<close> on a semaphore
  that is 0 (in a run of one process nobody posts it), and the dereference of a
  \<^verbatim>\<open>NULL\<close> table.
\<close>

datatype shm_fault = Aborted | Blocked | NullDeref

definition sem_wait :: "shm_state \<Rightarrow> shm_fault + shm_state" where
  "sem_wait st = (if sem st = 0 then Inl Blocked else Inr (st\<lparr>sem := sem st - 1\<rparr>))"

definition sem_post :: "shm_state \<Rightarrow> shm_state" where
  "sem_post st = st\<lparr>sem := sem st + 1\<rparr>"

text \<open>
  \<^verbatim>\<open>shm_lookup_region\<close>: the index of the first valid region of that name, among the
  \<open>MAX_SHM_REGIONS\<close> entries.
\<close>

primrec lookup_loop :: "string \<Rightarrow> e_shmseg_pvt list \<Rightarrow> nat \<Rightarrow> nat option" where
  "lookup_loop nm [] i = None"
| "lookup_loop nm (r # rs) i =
     (if valid r \<noteq> 0 \<and> nm = seg_name (shm_seg r) then Some i
      else lookup_loop nm rs (Suc i))"

definition shm_lookup_region :: "string \<Rightarrow> e_shmtable \<Rightarrow> nat option" where
  "shm_lookup_region nm t = lookup_loop nm (take MAX_SHM_REGIONS (regions t)) 0"

text \<open>
  \<^verbatim>\<open>shm_alloc_region\<close>: the first region that is not valid is filled in; \<open>sizeof_tbl\<close> is
  \<^verbatim>\<open>sizeof(*tbl)\<close> and \<open>base\<close> the address of the table.
\<close>

primrec free_loop :: "e_shmseg_pvt list \<Rightarrow> nat \<Rightarrow> nat option" where
  "free_loop [] i = None"
| "free_loop (r # rs) i = (if valid r = 0 then Some i else free_loop rs (Suc i))"

definition shm_alloc_region ::
  "64 word \<Rightarrow> 64 word \<Rightarrow> string \<Rightarrow> 64 word \<Rightarrow> e_shmtable \<Rightarrow> nat option \<times> e_shmtable" where
  "shm_alloc_region sizeof_tbl base nm sz t =
     (case free_loop (take MAX_SHM_REGIONS (regions t)) 0 of
        None \<Rightarrow> (None, t)
      | Some i \<Rightarrow>
          (let off = sizeof_tbl + next_free_offset t;
               seg = \<lparr> seg_addr = base + off, seg_name = take 256 nm, seg_size = sz,
                       seg_paddr = paddr_epi t + off, seg_offset = off \<rparr>;
               region = (regions t ! i)\<lparr>shm_seg := seg, valid := 1\<rparr>
           in (Some i,
               t\<lparr>regions := (regions t)[i := region],
                 free_space := ucast (ucast (free_space t) - sz),
                 next_free_offset := next_free_offset t + sz\<rparr>)))"

text \<open>\<^verbatim>\<open>shm_compact_heap\<close> is not yet implemented: it returns without doing anything.\<close>

definition shm_compact_heap :: "e_shmtable \<Rightarrow> e_shmtable" where
  "shm_compact_heap t = t"

text \<open>
  \<^verbatim>\<open>e_shm_alloc\<close>. The name is \<open>None\<close> for a \<^verbatim>\<open>NULL\<close> pointer. The result is the index
  of the region whose segment is returned, \<open>None\<close> for \<^verbatim>\<open>NULL\<close>.
\<close>

definition e_shm_alloc ::
  "64 word \<Rightarrow> string option \<Rightarrow> 64 word \<Rightarrow> shm_state \<Rightarrow> shm_fault + (nat option \<times> shm_state)" where
  "e_shm_alloc sizeof_tbl name_opt sz st =
     (case name_opt of
        None \<Rightarrow> Inr (None, st\<lparr>errno := EINVAL\<rparr>)
      | Some nm \<Rightarrow>
          if sz = 0 then Inr (None, st\<lparr>errno := EINVAL\<rparr>)
          else if shm_table st = 0 then Inl Aborted
          else
            (case sem_wait st of
               Inl f \<Rightarrow> Inl f
             | Inr st1 \<Rightarrow>
                 if shm_lookup_region nm (tbl st1) \<noteq> None
                 then Inr (None, sem_post (st1\<lparr>errno := EEXIST\<rparr>))
                 else
                   (let st2 = (if sz > ucast (free_space (tbl st1))
                               then st1\<lparr>tbl := shm_compact_heap (tbl st1)\<rparr> else st1)
                    in if sz > ucast (free_space (tbl st2))
                       then Inr (None, sem_post (st2\<lparr>errno := ENOMEM\<rparr>))
                       else
                         (case shm_alloc_region sizeof_tbl (shm_table st2) nm sz (tbl st2) of
                            (None, t) \<Rightarrow> Inr (None, sem_post (st2\<lparr>tbl := t\<rparr>))
                          | (Some i, t) \<Rightarrow>
                              Inr (Some i,
                                sem_post (st2\<lparr>tbl := t\<lparr>regions :=
                                  (regions t)[i := (regions t ! i)\<lparr>valid := 1, refcnt := 1\<rparr>]\<rparr>\<rparr>)))))) "

text \<open>\<^verbatim>\<open>e_shm_attach\<close> and \<^verbatim>\<open>e_shm_release\<close> read \<^verbatim>\<open>tbl->lock\<close> without a check of \<^verbatim>\<open>tbl\<close>.\<close>

definition e_shm_attach :: "string \<Rightarrow> shm_state \<Rightarrow> shm_fault + (nat option \<times> shm_state)" where
  "e_shm_attach nm st =
     (if shm_table st = 0 then Inl NullDeref
      else
        (case sem_wait st of
           Inl f \<Rightarrow> Inl f
         | Inr st1 \<Rightarrow>
             (case shm_lookup_region nm (tbl st1) of
                None \<Rightarrow> Inr (None, sem_post st1)
              | Some i \<Rightarrow>
                  (let t = tbl st1; r = regions t ! i
                   in Inr (Some i,
                        sem_post (st1\<lparr>tbl := t\<lparr>regions :=
                          (regions t)[i := r\<lparr>refcnt := refcnt r + 1\<rparr>]\<rparr>\<rparr>))))))"

definition e_shm_release :: "string \<Rightarrow> shm_state \<Rightarrow> shm_fault + (e_return \<times> shm_state)" where
  "e_shm_release nm st =
     (if shm_table st = 0 then Inl NullDeref
      else
        (case sem_wait st of
           Inl f \<Rightarrow> Inl f
         | Inr st1 \<Rightarrow>
             (case shm_lookup_region nm (tbl st1) of
                None \<Rightarrow> Inr (E_ERR, sem_post st1)
              | Some i \<Rightarrow>
                  (let t = tbl st1;
                       r = (regions t ! i)\<lparr>refcnt := refcnt (regions t ! i) - 1\<rparr>;
                       t1 = t\<lparr>regions := (regions t)[i := r]\<rparr>;
                       t2 = (if refcnt r = 0
                             then t1\<lparr>free_space :=
                                      ucast (ucast (free_space t1) - seg_size (shm_seg r)),
                                    regions := (regions t1)[i := r\<lparr>valid := 0\<rparr>]\<rparr>
                             else t1)
                   in Inr (E_OK, sem_post (st1\<lparr>tbl := t2\<rparr>))))))"

text \<open>
  The quantities of the accounting: the sizes of the valid regions, summed, and a table
  as the driver leaves it, with no valid region and the whole heap free.
\<close>

definition valid_sizes :: "e_shmtable \<Rightarrow> nat" where
  "valid_sizes t = sum_list (map (\<lambda>r. unat (seg_size (shm_seg r))) (filter (\<lambda>r. valid r \<noteq> 0) (regions t)))"

definition empty_region :: e_shmseg_pvt where
  "empty_region =
     \<lparr> shm_seg = \<lparr> seg_addr = 0, seg_name = [], seg_size = 0, seg_paddr = 0, seg_offset = 0 \<rparr>,
       refcnt = 0, valid = 0 \<rparr>"

definition initial_table :: "32 word \<Rightarrow> e_shmtable" where
  "initial_table capacity =
     \<lparr> magic = 0xABCDEF00, padding = 0, regions = replicate MAX_SHM_REGIONS empty_region,
       free_space = capacity, next_free_offset = 0, paddr_epi = 0x8E000000,
       paddr_cpu = 0x3E000000, heap = 0 \<rparr>"

definition initial_shm :: "32 word \<Rightarrow> shm_state" where
  "initial_shm capacity =
     \<lparr> shm_table = 0x10000, tbl = initial_table capacity, sem = 1, errno = 0 \<rparr>"

section \<open>Properties of the bit fields\<close>

lemma getfield_take: "getfield x lt rt = drop_bit rt (take_bit (lt + 1) x)"
  unfolding getfield_def
  by (simp add: take_bit_eq_mask mask_eq_exp_minus_1 push_bit_eq_mult)

lemma unat_getfield: "unat (getfield x lt rt) = (unat x mod 2 ^ (lt + 1)) div 2 ^ rt"
  unfolding getfield_take unat_drop_bit_eq unsigned_take_bit_eq
  by (simp only: take_bit_eq_mod drop_bit_eq_div)

lemma unat_ucast_16_32: "unat (ucast (w::16 word) :: 32 word) = unat w"
  using unsigned_less [of w, where ?'a = nat]
  by (simp add: unsigned_ucast_eq take_bit_eq_mod)

lemma getfield_eq_iff:
  "(getfield x lt rt = y) \<longleftrightarrow> ((unat x mod 2 ^ (lt + 1)) div 2 ^ rt = unat y)"
  by (simp only: word_unat_eq_iff unat_getfield)

lemma and_15_take: "(w::16 word) AND 0xF = take_bit 4 w"
  by (simp add: take_bit_eq_mask mask_eq_exp_minus_1)

lemma and_7_take: "(w::16 word) AND 7 = take_bit 3 w"
  by (simp add: take_bit_eq_mask mask_eq_exp_minus_1)

lemma and_3_take: "(w::16 word) AND 3 = take_bit 2 w"
  by (simp add: take_bit_eq_mask mask_eq_exp_minus_1)

lemma take_bit_eq_iff_unat:
  "(take_bit n (w::16 word) = y) \<longleftrightarrow> (unat w mod 2 ^ n = unat y)"
  unfolding word_unat_eq_iff unsigned_take_bit_eq
  by (simp only: take_bit_eq_mod)

lemma bit_iff_unat: "bit (w::16 word) n \<longleftrightarrow> odd (unat w div 2 ^ n)"
proof -
  have "bit w n \<longleftrightarrow> bit (unat w) n"
    by (simp add: bit_unsigned_iff)
  then show ?thesis
    by (simp only: bit_iff_odd)
qed

lemma nibble_cases:
  fixes k :: nat
  assumes "k < 16"
  shows "k \<in> {0, 1, 2, 3, 4, 5, 6, 7, 8, 9, 10, 11, 12, 13, 14, 15}"
proof -
  have "k \<in> {..<16}" using assms by simp
  also have "{..<16::nat} = {0, 1, 2, 3, 4, 5, 6, 7, 8, 9, 10, 11, 12, 13, 14, 15}"
    by (simp add: lessThan_nat_numeral lessThan_Suc insert_commute)
  finally show ?thesis .
qed

lemma nibble_reduce:
  fixes m :: nat
  shows "m mod 8 = (m mod 16) mod 8" "m mod 4 = (m mod 16) mod 4"
    "odd (m div 8) = odd ((m mod 16) div 8)"
proof -
  show "m mod 8 = (m mod 16) mod 8" by (simp add: mod_mod_cancel)
  show "m mod 4 = (m mod 16) mod 4" by (simp add: mod_mod_cancel)
  have "bit (take_bit 4 m) 3 = bit m 3" by (simp add: bit_take_bit_iff)
  then show "odd (m div 8) = odd ((m mod 16) div 8)"
    by (simp add: bit_iff_odd take_bit_eq_mod)
qed

text \<open>
  C6. For every 16-bit opcode word, \<open>is32BitsInstr\<close> answers true if and only if bits 3..0
  are 0xF (extended class), or bits 2..0 are 3 and bit 3 is set (long register-immediate),
  or bits 2..0 are 4 or bits 1..0 are 1, and bit 3 is set (long load/store), or bits 2..0
  are 0 and bit 3 is set (long branch). The step engine passes the opcode it fetched,
  a \<^verbatim>\<open>uint16_t\<close>, which the call converts to \<^verbatim>\<open>uint32_t\<close>.
\<close>

theorem is32BitsInstr_classification:
  "is32BitsInstr (ucast (w::16 word)) \<longleftrightarrow>
     (w AND 0xF = 0xF) \<or> (w AND 7 = 3 \<and> bit w 3)
     \<or> ((w AND 7 = 4 \<or> w AND 3 = 1) \<and> bit w 3) \<or> (w AND 7 = 0 \<and> bit w 3)"
proof -
  define k where "k = unat w mod 16"
  have k: "k \<in> {0, 1, 2, 3, 4, 5, 6, 7, 8, 9, 10, 11, 12, 13, 14, 15}"
    unfolding k_def by (rule nibble_cases) simp
  have r: "unat w mod 16 = k" "unat w mod 8 = k mod 8" "unat w mod 4 = k mod 4"
    "odd (unat w div 8) = odd (k div 8)"
    unfolding k_def by (rule refl nibble_reduce)+
  have code: "is32BitsInstr (ucast w) \<longleftrightarrow>
      (k = 15 \<or> ((k mod 8 = 4 \<or> k mod 4 = 1) \<and> k div 8 = 1) \<or> (k mod 8 = 3 \<and> k div 8 = 1)
        \<or> (k mod 8 = 0 \<and> k div 8 = 1))"
    unfolding is32BitsInstr_def Let_def getfield_eq_iff unat_ucast_16_32
    by (simp add: r)
  have spec: "((w AND 0xF = 0xF) \<or> (w AND 7 = 3 \<and> bit w 3)
       \<or> ((w AND 7 = 4 \<or> w AND 3 = 1) \<and> bit w 3) \<or> (w AND 7 = 0 \<and> bit w 3)) \<longleftrightarrow>
      (k = 15 \<or> (k mod 8 = 3 \<and> odd (k div 8)) \<or> ((k mod 8 = 4 \<or> k mod 4 = 1) \<and> odd (k div 8))
        \<or> (k mod 8 = 0 \<and> odd (k div 8)))"
    unfolding and_15_take and_7_take and_3_take take_bit_eq_iff_unat bit_iff_unat
    by (simp add: r)
  show ?thesis
    unfolding code spec using k by (elim insertE emptyE; simp)
qed

section \<open>Properties of the target store\<close>

lemma byte0_readMem16: "ucast (readMem16 m a) = m a"
  unfolding readMem16_def
  by (rule bit_eqI) (auto simp add: bit_simps)

lemma byte1_readMem16: "ucast (drop_bit 8 (readMem16 m a)) = m (a + 1)"
  unfolding readMem16_def
  by (rule bit_eqI) (auto simp add: bit_simps dest: bit_imp_le_length)

lemma bytes_cat16:
  "(ucast (ucast (v::16 word) :: 8 word) :: 16 word)
     OR push_bit 8 (ucast (ucast (drop_bit 8 v) :: 8 word)) = v"
  by (rule bit_eqI) (auto simp add: bit_simps)

lemma bytes_cat32:
  "(ucast (ucast (v::32 word) :: 8 word) :: 32 word)
     OR push_bit 8 (ucast (ucast (drop_bit 8 v) :: 8 word))
     OR push_bit 16 (ucast (ucast (drop_bit 16 v) :: 8 word))
     OR push_bit 24 (ucast (ucast (drop_bit 24 v) :: 8 word)) = v"
proof (rule bit_eqI)
  fix n
  assume "possible_bit TYPE(32 word) n"
  then have n: "n < 32" by simp
  consider "n < 8" | "8 \<le> n" "n < 16" | "16 \<le> n" "n < 24" | "24 \<le> n" "n < 32"
    using n by linarith
  then show "bit (ucast (ucast v :: 8 word) OR push_bit 8 (ucast (ucast (drop_bit 8 v) :: 8 word))
      OR push_bit 16 (ucast (ucast (drop_bit 16 v) :: 8 word))
      OR push_bit 24 (ucast (ucast (drop_bit 24 v) :: 8 word)) :: 32 word) n = bit v n"
    by cases (auto simp add: bit_simps)
qed

lemma readMem16_writeMem16_same: "readMem16 (writeMem16 m a v) a = v"
  by (simp add: readMem16_def writeMem16_def bytes_cat16)

lemma readMem32_writeMem32_same: "readMem32 (writeMem32 m a v) a = v"
  by (simp add: readMem32_def writeMem32_def bytes_cat32)

lemma writeMem16_restore: "writeMem16 (writeMem16 m a b) a (readMem16 m a) = m"
  by (rule ext) (simp add: writeMem16_def byte0_readMem16 byte1_readMem16)

lemma readMem32_cong:
  "m' a = m a \<Longrightarrow> m' (a + 1) = m (a + 1) \<Longrightarrow> m' (a + 2) = m (a + 2)
     \<Longrightarrow> m' (a + 3) = m (a + 3) \<Longrightarrow> readMem32 m' a = readMem32 m a"
  by (simp add: readMem32_def)

lemma readMem16_cong:
  "m' a = m a \<Longrightarrow> m' (a + 1) = m (a + 1) \<Longrightarrow> readMem16 m' a = readMem16 m a"
  by (simp add: readMem16_def)

section \<open>The exception state\<close>

text \<open>
  C7. For every value of the STATUS register the exception-state check reports an
  exception exactly when bits 18..16 are not zero; the cause is then SIGBUS for
  \<open>E_UNALIGMENT_LS\<close>, SIGFPE for \<open>E_FPU\<close>, SIGILL for \<open>E_UNIMPL\<close> and SIGABRT for any
  other value. The three exception codes are distinct constants of the register map.
  Without an exception the cause is left as it was.
\<close>

theorem isTargetExceptionState_signal:
  assumes "E_UNALIGMENT_LS K \<noteq> E_FPU K" "E_UNALIGMENT_LS K \<noteq> E_UNIMPL K"
    "E_FPU K \<noteq> E_UNIMPL K"
  shows "isTargetExceptionState K m exCause =
    (let exStat = getfield (readCoreStatus K m) 18 16
     in (exStat \<noteq> 0,
         if exStat = 0 then exCause
         else if exStat = E_UNALIGMENT_LS K then TARGET_SIGNAL_BUS
         else if exStat = E_FPU K then TARGET_SIGNAL_FPE
         else if exStat = E_UNIMPL K then TARGET_SIGNAL_ILL
         else TARGET_SIGNAL_ABRT))"
  using assms by (simp add: isTargetExceptionState_def Let_def)

theorem isTargetExceptionState_signal_witness:
  "E_UNALIGMENT_LS epiphany_regmap \<noteq> E_FPU epiphany_regmap
   \<and> E_UNALIGMENT_LS epiphany_regmap \<noteq> E_UNIMPL epiphany_regmap
   \<and> E_FPU epiphany_regmap \<noteq> E_UNIMPL epiphany_regmap
   \<and> isTargetExceptionState epiphany_regmap (writeMem32 (\<lambda>_. 0) 0xF0404 0x20000)
        TARGET_SIGNAL_TRAP = (True, TARGET_SIGNAL_BUS)"
  using isTargetExceptionState_signal [of epiphany_regmap
      "writeMem32 (\<lambda>_. 0) 0xF0404 0x20000" TARGET_SIGNAL_TRAP]
  by (simp add: epiphany_regmap_def readCoreStatus_def ATDSP_INST32LEN_def
      readMem32_writeMem32_same getfield_def Let_def)

section \<open>Matchpoint insertion and removal\<close>

lemma MpHash_add_remove:
  "MpHash_lookup ty a h = None \<Longrightarrow> MpHash_remove ty a (MpHash_add ty a v h) = (Some v, h)"
  by (auto simp add: MpHash_lookup_def MpHash_add_def MpHash_remove_def fun_eq_iff)

lemma MpHash_remove_absent:
  "MpHash_lookup ty a h = None \<Longrightarrow> MpHash_remove ty a h = (None, h)"
  by (auto simp add: MpHash_lookup_def MpHash_remove_def fun_eq_iff)

text \<open>
  C4. For an address \<open>A\<close> with no entry in the matchpoint table, the packet \<^verbatim>\<open>Z0,A,2\<close>
  followed by the packet \<^verbatim>\<open>z0,A,2\<close> leaves the 16-bit word at \<open>A\<close> (and all of the target
  store, and the table) as before the pair, and each packet is answered \<^verbatim>\<open>OK\<close>. A
  \<^verbatim>\<open>z0\<close> packet for an address with no entry is answered \<^verbatim>\<open>OK\<close> and writes nothing.
  That the packets have this form is said through \<open>sscanf\<close>: three fields, kind 0,
  address \<open>A\<close>, length 2.
\<close>

theorem matchpoint_insert_remove:
  assumes absent: "MpHash_lookup BP_MEMORY A (mpHash st) = None"
    and Z: "sscanf pZ ''Z%1d,%x,%1d'' = (3, 0, A, 2)"
    and z: "sscanf pz ''z%1d,%x,%1d'' = (3, 0, A, 2)"
  shows "(let st1 = rspInsertMatchpoint K sscanf (getPkt pZ st);
              st2 = rspRemoveMatchpoint K sscanf (getPkt pz st1);
              st3 = rspRemoveMatchpoint K sscanf (getPkt pz st)
          in readMem16 (mem st2) A = readMem16 (mem st) A
             \<and> mem st2 = mem st \<and> mpHash st2 = mpHash st
             \<and> sent st1 = sent st @ [''OK''] \<and> sent st2 = sent st1 @ [''OK'']
             \<and> sent st3 = sent st @ [''OK''] \<and> mem st3 = mem st)"
  using absent
  by (simp add: Let_def rspInsertMatchpoint_def rspRemoveMatchpoint_def getPkt_def Z z
      MpType_of_int_def putBreakPointInstruction_def putPkt_def packStr_def
      MpHash_add_remove MpHash_remove_absent writeMem16_restore)

theorem matchpoint_insert_remove_witness:
  "MpHash_lookup BP_MEMORY 0x100 (mpHash (GdbServer (writeMem16 zero_mem 0x100 0x1234))) = None
   \<and> const_scan (3 :: int, 0 :: int, 0x100 :: 32 word, 2 :: int) ''Z0,100,2'' ''Z%1d,%x,%1d''
       = (3, 0, 0x100, 2)
   \<and> const_scan (3 :: int, 0 :: int, 0x100 :: 32 word, 2 :: int) ''z0,100,2'' ''z%1d,%x,%1d''
       = (3, 0, 0x100, 2)
   \<and> readMem16 (mem (rspInsertMatchpoint epiphany_regmap (const_scan (3, 0, 0x100, 2))
         (getPkt ''Z0,100,2'' (GdbServer (writeMem16 zero_mem 0x100 0x1234))))) 0x100 = 0x01C2
   \<and> readMem16 (mem (rspRemoveMatchpoint epiphany_regmap (const_scan (3, 0, 0x100, 2))
         (getPkt ''z0,100,2''
           (rspInsertMatchpoint epiphany_regmap (const_scan (3, 0, 0x100, 2))
             (getPkt ''Z0,100,2'' (GdbServer (writeMem16 zero_mem 0x100 0x1234))))))) 0x100
       = 0x1234"
  using matchpoint_insert_remove [where A = "0x100"
      and st = "GdbServer (writeMem16 zero_mem 0x100 0x1234)"
      and sscanf = "const_scan (3, 0, 0x100, 2)" and pZ = "''Z0,100,2''"
      and pz = "''z0,100,2''" and K = epiphany_regmap]
  by (simp add: Let_def const_scan_def GdbServer_def MpHash_lookup_def
      readMem16_writeMem16_same rspInsertMatchpoint_def getPkt_def MpType_of_int_def
      putBreakPointInstruction_def putPkt_def packStr_def epiphany_regmap_def)

section \<open>OS data transfer\<close>



section \<open>File-I/O reply\<close>

lemma readGpr_eq: "readGpr K n m = readMem32 m (CORE_R0 K + n * ATDSP_INST32LEN)"
  by (simp add: readGpr_def readLr_def readFp_def readSp_def)

lemma writeGpr_eq: "writeGpr K n v m = writeMem32 m (CORE_R0 K + n * ATDSP_INST32LEN) v"
  by (simp add: writeGpr_def writeLr_def writeFp_def writeSp_def)

lemma readMem32_writeMem32_12:
  "readMem32 (writeMem32 m (a + 12) v) a = readMem32 m a"
  by (rule readMem32_cong) (simp_all add: writeMem32_def)

lemma writeMem32_other:
  "x \<noteq> a \<Longrightarrow> x \<noteq> a + 1 \<Longrightarrow> x \<noteq> a + 2 \<Longrightarrow> x \<noteq> a + 3 \<Longrightarrow> writeMem32 m a v x = m x"
  by (simp add: writeMem32_def)

text \<open>
  C8. A File-I/O reply \<^verbatim>\<open>F<result>,<errno>\<close> (\<open>sscanf\<close> converts two fields) writes the
  result into the general purpose register r0 and the error number into r3. A reply
  \<^verbatim>\<open>F<result>\<close> without an error number (the first \<open>sscanf\<close> does not convert two fields,
  the second converts one) writes the result into r0 and nothing else: the target store
  is unchanged outside the four bytes of r0.
\<close>

theorem rspFileIOreply_registers:
  fixes K sscanf2 sscanf1 st
  defines "st' \<equiv> rspFileIOreply K sscanf2 sscanf1 st"
  defines "r0 \<equiv> CORE_R0 K"
  shows "(sscanf2 (pkt st) ''F%lx,%lx'' = (2, res, err) \<longrightarrow>
            readGpr K 0 (mem st') = ucast res \<and> readGpr K 3 (mem st') = ucast err
            \<and> mem st' = writeGpr K 3 (ucast err) (writeGpr K 0 (ucast res) (mem st)))
       \<and> (fst (sscanf2 (pkt st) ''F%lx,%lx'') \<noteq> 2 \<and> sscanf1 (pkt st) ''F%lx'' = (1, res) \<longrightarrow>
            readGpr K 0 (mem st') = ucast res
            \<and> (\<forall>x. x \<notin> {r0, r0 + 1, r0 + 2, r0 + 3} \<longrightarrow> mem st' x = mem st x))"
  unfolding st'_def r0_def
  by (auto simp add: rspFileIOreply_def readGpr_eq writeGpr_eq ATDSP_INST32LEN_def
      readMem32_writeMem32_same readMem32_writeMem32_12 writeMem32_other
      split: prod.splits)

theorem rspFileIOreply_registers_witness:
  "const_scan (2 :: int, 5 :: 64 word, 9 :: 64 word) (pkt (getPkt ''F5,9'' (GdbServer zero_mem))) ''F%lx,%lx'' = (2, 5, 9)
   \<and> readGpr epiphany_regmap 0 (mem (rspFileIOreply epiphany_regmap (const_scan (2, 5, 9))
         (const_scan (1, 5)) (getPkt ''F5,9'' (GdbServer zero_mem)))) = 5
   \<and> readGpr epiphany_regmap 3 (mem (rspFileIOreply epiphany_regmap (const_scan (2, 5, 9))
         (const_scan (1, 5)) (getPkt ''F5,9'' (GdbServer zero_mem)))) = 9
   \<and> fst (const_scan (1 :: int, 5 :: 64 word, 0 :: 64 word) (pkt (getPkt ''F5'' (GdbServer zero_mem))) ''F%lx,%lx'') \<noteq> 2
   \<and> const_scan (1 :: int, 5 :: 64 word) (pkt (getPkt ''F5'' (GdbServer zero_mem))) ''F%lx''
       = (1, 5)
   \<and> readGpr epiphany_regmap 0 (mem (rspFileIOreply epiphany_regmap (const_scan (1, 5, 0))
         (const_scan (1, 5)) (getPkt ''F5'' (GdbServer zero_mem)))) = 5
   \<and> readGpr epiphany_regmap 3 (mem (rspFileIOreply epiphany_regmap (const_scan (1, 5, 0))
         (const_scan (1, 5)) (getPkt ''F5'' (GdbServer zero_mem)))) = 0"
  using rspFileIOreply_registers [where ?sscanf2.0 = "const_scan (2, 5, 9)"
      and st = "getPkt ''F5,9'' (GdbServer zero_mem)" and res = 5 and err = 9
      and K = epiphany_regmap and ?sscanf1.0 = "const_scan (1, 5)"]
    rspFileIOreply_registers [where ?sscanf2.0 = "const_scan (1, 5, 0)"
      and st = "getPkt ''F5'' (GdbServer zero_mem)" and res = 5 and err = 0
      and K = epiphany_regmap and ?sscanf1.0 = "const_scan (1, 5)"]
  by (simp add: const_scan_def rspFileIOreply_def readGpr_eq writeGpr_eq GdbServer_def
      getPkt_def zero_mem_def epiphany_regmap_def ATDSP_INST32LEN_def readMem32_def
      writeMem32_def)

section \<open>The running flag\<close>




section \<open>The step engine: interrupt vector table\<close>





lemma put_ivt_bkpts_mpHash:
  "mpHash (put_ivt_bkpts K pc st) = mpHash st"
proof -
  have "mpHash (fold (\<lambda>i s. let bkpt_addr = of_nat i * ATDSP_INST32LEN
          in if pc \<noteq> bkpt_addr then putBreakPointInstruction K bkpt_addr s else s) xs st)
        = mpHash st" for xs
    by (induction xs arbitrary: st) (simp_all add: Let_def putBreakPointInstruction_def)
  then show ?thesis by (simp add: put_ivt_bkpts_def)
qed












section \<open>The step engine: matchpoint table\<close>

text \<open>
  The table after a step that ran to its stop reply: whatever the table held for the
  sequential and the jump address is deleted, and every other entry is as before.
\<close>

lemma put_hidden_bkpt_mpHash:
  "mpHash (put_hidden_bkpt K a st) = MpHash_add BP_MEMORY a (readMem16 (mem st) a) (mpHash st)"
  by (simp add: put_hidden_bkpt_def Let_def putBreakPointInstruction_def MpHash_lookup_def
      MpHash_add_def)

lemma rspStep_hidden_mpHash:
  assumes "rspStep_hidden K addr st = Inr (st0, pc, bkpt_addr, bkpt_jump_addr)"
  shows "(mpHash st0)((BP_MEMORY, bkpt_addr) := None, (BP_MEMORY, bkpt_jump_addr) := None)
       = (mpHash st)((BP_MEMORY, bkpt_addr) := None, (BP_MEMORY, bkpt_jump_addr) := None)"
  using assms
  by (auto simp add: rspStep_hidden_def Let_def put_hidden_bkpt_mpHash MpHash_add_def fun_eq_iff
      split: if_splits option.splits)

lemma rspReportException_mpHash:
  "mpHash (rspReportException h p t e st) = mpHash st"
  by (simp add: rspReportException_def Let_def putPkt_def)

lemma rspStep_finish_mpHash:
  assumes "rspStep_finish K h bkpt_addr bkpt_jump_addr st = Inr st'"
  shows "mpHash st'
       = (mpHash st)((BP_MEMORY, bkpt_addr) := None, (BP_MEMORY, bkpt_jump_addr) := None)"
  using assms
  by (auto simp add: rspStep_finish_def Let_def restoreIVT_def MpHash_remove_def
      rspReportException_mpHash fun_eq_iff split: if_splits option.splits prod.splits)

lemma rspStep_mpHash:
  assumes hidden: "rspStep_hidden K addr st = Inr (st0, pc, bkpt_addr, bkpt_jump_addr)"
    and finish: "rspStep_finish K h bkpt_addr bkpt_jump_addr
        ((targetResume K (put_ivt_bkpts K pc (saveIVT K st0)))\<lparr>mem := m\<rparr>) = Inr st'"
  shows "mpHash st'
       = (mpHash st)((BP_MEMORY, bkpt_addr) := None, (BP_MEMORY, bkpt_jump_addr) := None)"
proof -
  have "mpHash ((targetResume K (put_ivt_bkpts K pc (saveIVT K st0)))\<lparr>mem := m\<rparr>) = mpHash st0"
    by (simp add: targetResume_def put_ivt_bkpts_mpHash saveIVT_def)
  then show ?thesis
    using rspStep_finish_mpHash [OF finish] rspStep_hidden_mpHash [OF hidden] by simp
qed

lemma rspStep_mpHash_no_entry:
  assumes hidden: "rspStep_hidden K addr st = Inr (st0, pc, bkpt_addr, bkpt_jump_addr)"
    and finish: "rspStep_finish K h bkpt_addr bkpt_jump_addr
        ((targetResume K (put_ivt_bkpts K pc (saveIVT K st0)))\<lparr>mem := m\<rparr>) = Inr st'"
    and none: "MpHash_lookup BP_MEMORY bkpt_addr (mpHash st) = None"
      "MpHash_lookup BP_MEMORY bkpt_jump_addr (mpHash st) = None"
  shows "mpHash st' = mpHash st"
  using rspStep_mpHash [OF hidden finish] none
  by (auto simp add: MpHash_lookup_def fun_eq_iff)

text \<open>
  C2. The claim is that after a step the matchpoint table holds exactly the breakpoints
  of the client that it held before, one at the sequential or jump address included. The
  engine keeps its hidden breakpoints in the same table under \<open>BP_MEMORY\<close>; it adds an
  entry only where there is none, and at the end it removes the entries at both
  addresses, whoever made them. With the core halted at 0x100 on a 16-bit NOP and a
  breakpoint of the client at 0x102, the step is reported with \<^verbatim>\<open>S05\<close>, and after it the
  table has no entry for 0x102 and the store holds the original instruction there: the
  breakpoint of the client is gone.
\<close>

theorem step_removes_user_breakpoint:
  "MpHash_lookup BP_MEMORY 0x102 (mpHash user_bp_state) = Some 0x1234
   \<and> (case step_next_to_user_bp of
        Inr st \<Rightarrow>
          MpHash_lookup BP_MEMORY 0x102 (mpHash st) = None
          \<and> readMem16 (mem st) 0x102 = 0x1234
          \<and> sent st = [''OK'', ''S05'']
      | Inl f \<Rightarrow> False)"
  by code_simp

section \<open>The shared-memory manager: allocation and release\<close>

text \<open>
  C10. A call \<open>e_shm_alloc\<close> with a \<^verbatim>\<open>NULL\<close> name or with size 0 returns \<^verbatim>\<open>NULL\<close> with
  \<open>errno\<close> set to \<open>EINVAL\<close>. Nothing else of the state changes: the semaphore is not
  taken (the call returns even where the semaphore is 0 and a \<open>sem_wait\<close> would block)
  and no field of the table is written.
\<close>

theorem e_shm_alloc_invalid_argument:
  assumes "name_opt = None \<or> sz = 0"
  shows "e_shm_alloc sizeof_tbl name_opt sz st = Inr (None, st\<lparr>errno := EINVAL\<rparr>)"
  using assms by (auto simp add: e_shm_alloc_def split: option.splits)

theorem e_shm_alloc_invalid_argument_witness:
  "(Some ''r'' = None \<or> (0 :: 64 word) = 0)
   \<and> e_shm_alloc 19000 (Some ''r'') 0 ((initial_shm 4096)\<lparr>sem := 0\<rparr>)
       = Inr (None, (initial_shm 4096)\<lparr>sem := 0, errno := EINVAL\<rparr>)
   \<and> ((None :: string option) = None \<or> (1024 :: 64 word) = 0)
   \<and> e_shm_alloc 19000 None 1024 (initial_shm 4096)
       = Inr (None, (initial_shm 4096)\<lparr>errno := EINVAL\<rparr>)"
  using e_shm_alloc_invalid_argument [of "Some ''r''" 0 19000 "(initial_shm 4096)\<lparr>sem := 0\<rparr>"]
    e_shm_alloc_invalid_argument [of None 1024 19000 "initial_shm 4096"]
  by simp

text \<open>
  The release of the last reference to a region: the call returns \<open>E_OK\<close>, and the free
  space after it is the free space before it less the size of the region.
\<close>

lemma e_shm_release_last_reference:
  assumes "shm_table st \<noteq> 0" "sem st \<noteq> 0"
    and "shm_lookup_region nm (tbl st) = Some i"
    and "refcnt (regions (tbl st) ! i) = 1"
  shows "\<exists>st'. e_shm_release nm st = Inr (E_OK, st')
     \<and> free_space (tbl st')
         = ucast (ucast (free_space (tbl st)) - seg_size (shm_seg (regions (tbl st) ! i)))"
  using assms by (simp add: e_shm_release_def sem_wait_def sem_post_def Let_def)

text \<open>
  C1. The claim is that \<open>free_space\<close> is the heap capacity less the sizes of the valid
  regions after any allocations and releases, and that a release which drops the
  reference count to zero gives the size of the region back. The source subtracts the
  size in \<open>e_shm_release\<close> as it does in \<open>shm_alloc_region\<close>. On a table with 4096 free
  bytes and no region, allocating 1024 bytes under the name \<open>r\<close> and releasing \<open>r\<close> ends
  with no valid region and 2048 free bytes, not 4096.
\<close>

theorem e_shm_release_subtracts:
  "(case e_shm_alloc 19000 (Some ''r'') 1024 (initial_shm 4096) of
      Inr (Some i, st1) \<Rightarrow>
        free_space (tbl st1) = 3072 \<and> valid_sizes (tbl st1) = 1024 \<and>
        (case e_shm_release ''r'' st1 of
           Inr (ret, st2) \<Rightarrow>
             ret = E_OK \<and> valid (regions (tbl st2) ! i) = 0
             \<and> valid_sizes (tbl st2) = 0 \<and> free_space (tbl st2) = 2048
         | Inl f \<Rightarrow> False)
    | _ \<Rightarrow> False)"
  by code_simp

end
